theory Spec2Isabelle
  imports Complex_Main
begin

section \<open>Python values and the constants of finance_app.py\<close>

text \<open>
  The session store of the application holds ordinary Python objects, and after an import it
  holds whatever \<^verbatim>\<open>json.loads\<close> produced. They are modelled by one datatype of
  Python values. Numbers are real numbers: every finite float is one, and the arithmetic
  of the program is taken exactly (no rounding of sums and products, no \<^verbatim>\<open>nan\<close>, no
  \<^verbatim>\<open>inf\<close>). A pandas Timestamp is identified with its default string form
  \<^verbatim>\<open>str(ts)\<close>, the text that \<^verbatim>\<open>json.dumps(..., default=str)\<close> writes for it; it stays
  a value of its own kind, different from the string. A dictionary is the association
  list of its items, read with \<^const>\<open>map_of\<close>. Text outside ASCII is written as its
  UTF-8 bytes.
\<close>

datatype pyval =
    PNone
  | PBool bool
  | PNum real
  | PStr string
  | PTimestamp string
  | PList "pyval list"
  | PDict "(string \<times> pyval) list"

datatype error =
    KeyError | TypeError | AttributeError | ValueError | JSONDecodeError | ConnectionError

text \<open>\<^verbatim>\<open>CURRENCIES\<close>, lines 13-16.\<close>

definition CURRENCIES :: "string list" where
  "CURRENCIES = [''RUB'', ''USD'', ''EUR'', ''CNY'', ''GBP'', ''VND'', ''EGP'', ''TRY'', ''GEL'']"


section \<open>Rate fetcher and conversion (lines 39-53)\<close>

text \<open>
  What the HTTP GET of \<^verbatim>\<open>get_exchange_rates\<close> met: \<^verbatim>\<open>requests.get\<close> raised, or
  \<^verbatim>\<open>response.json()\<close> raised, or the body parsed to a Python value.
\<close>

datatype response = NoResponse | NotJson | Body pyval

text \<open>
  The effects a call leaves behind: the URLs requested and the messages shown with
  \<^verbatim>\<open>st.error\<close>.
\<close>

record effects =
  requests :: "string list"
  errors_shown :: "string list"

text \<open>\<^verbatim>\<open>data[key]\<close> for a string key: only a dictionary holding the key answers.\<close>

fun subscript :: "pyval \<Rightarrow> string \<Rightarrow> error + pyval" where
  "subscript (PDict kvs) k = (case map_of kvs k of None \<Rightarrow> Inl KeyError | Some v \<Rightarrow> Inr v)"
| "subscript _ k = Inl TypeError"

text \<open>\<^verbatim>\<open>rates.get(key, default)\<close>: only a dictionary has the method.\<close>

fun py_get :: "pyval \<Rightarrow> string \<Rightarrow> pyval \<Rightarrow> error + pyval" where
  "py_get (PDict kvs) k d = Inr (case map_of kvs k of None \<Rightarrow> d | Some v \<Rightarrow> v)"
| "py_get _ k d = Inl AttributeError"

text \<open>\<^verbatim>\<open>amount * v\<close> for a float amount: a number or a bool multiplies, anything else
  raises TypeError.\<close>

fun py_mul :: "real \<Rightarrow> pyval \<Rightarrow> error + real" where
  "py_mul a (PNum x) = Inr (a * x)"
| "py_mul a (PBool b) = Inr (a * (if b then 1 else 0))"
| "py_mul a _ = Inl TypeError"

definition rates_url :: "string \<Rightarrow> string" where
  "rates_url base_currency = ''https://api.exchangerate-api.com/v4/latest/'' @ base_currency"

text \<open>The message of line 46 ("Oshibka pri poluchenii kursov valyut").\<close>

definition rates_error_message :: string where
  "rates_error_message =
    [CHR 0xD0, CHR 0x9E, CHR 0xD1, CHR 0x88, CHR 0xD0, CHR 0xB8, CHR 0xD0, CHR 0xB1, CHR 0xD0,
     CHR 0xBA, CHR 0xD0, CHR 0xB0, CHR 0x20, CHR 0xD0, CHR 0xBF, CHR 0xD1, CHR 0x80, CHR 0xD0,
     CHR 0xB8, CHR 0x20, CHR 0xD0, CHR 0xBF, CHR 0xD0, CHR 0xBE, CHR 0xD0, CHR 0xBB, CHR 0xD1,
     CHR 0x83, CHR 0xD1, CHR 0x87, CHR 0xD0, CHR 0xB5, CHR 0xD0, CHR 0xBD, CHR 0xD0, CHR 0xB8,
     CHR 0xD0, CHR 0xB8, CHR 0x20, CHR 0xD0, CHR 0xBA, CHR 0xD1, CHR 0x83, CHR 0xD1, CHR 0x80,
     CHR 0xD1, CHR 0x81, CHR 0xD0, CHR 0xBE, CHR 0xD0, CHR 0xB2, CHR 0x20, CHR 0xD0, CHR 0xB2,
     CHR 0xD0, CHR 0xB0, CHR 0xD0, CHR 0xBB, CHR 0xD1, CHR 0x8E, CHR 0xD1, CHR 0x82]"

text \<open>The dictionary comprehension of line 47.\<close>

definition fallback_rates :: "string \<Rightarrow> pyval" where
  "fallback_rates base_currency =
     PDict (map (\<lambda>currency. (currency, PNum (if currency = base_currency then 1 else 0)))
              CURRENCIES)"

text \<open>The body of the \<^verbatim>\<open>try\<close> block, lines 41-44: \<^verbatim>\<open>Inl\<close> is an exception raised in it.\<close>

fun fetch_rates :: "response \<Rightarrow> error + pyval" where
  "fetch_rates (Body data) = subscript data ''rates''"
| "fetch_rates NotJson = Inl JSONDecodeError"
| "fetch_rates NoResponse = Inl ConnectionError"

text \<open>
  \<^verbatim>\<open>get_exchange_rates\<close>: the bare \<^verbatim>\<open>except\<close> turns every exception of the block into
  the message of line 46 and the table of line 47. The function itself never raises.
\<close>

definition get_exchange_rates :: "response \<Rightarrow> string \<Rightarrow> effects \<Rightarrow> pyval \<times> effects" where
  "get_exchange_rates resp base_currency fx =
     (let fx1 = fx\<lparr>requests := requests fx @ [rates_url base_currency]\<rparr>
      in case fetch_rates resp of
           Inr rates \<Rightarrow> (rates, fx1)
         | Inl _ \<Rightarrow> (fallback_rates base_currency,
                     fx1\<lparr>errors_shown := errors_shown fx1 @ [rates_error_message]\<rparr>))"

text \<open>\<^verbatim>\<open>convert_amount\<close>, lines 49-53. Neither \<^verbatim>\<open>.get\<close> nor the product is guarded.\<close>

definition convert_amount ::
  "response \<Rightarrow> real \<Rightarrow> string \<Rightarrow> string \<Rightarrow> effects \<Rightarrow> (error + real) \<times> effects" where
  "convert_amount resp amount from_currency to_currency fx =
     (if from_currency = to_currency then (Inr amount, fx)
      else
        (let (rates, fx1) = get_exchange_rates resp from_currency fx
         in (case py_get rates to_currency (PNum 0) of
               Inl e \<Rightarrow> Inl e
             | Inr rate \<Rightarrow> py_mul amount rate, fx1)))"




section \<open>The session store (lines 62-82, 122-129)\<close>

text \<open>
  A row of the transactions frame. The columns are named in Russian in the source; the
  fields carry the transliterated names: \<open>Data\<close> (date, a Timestamp), \<open>Tip\<close> (kind),
  \<open>Kategoriya\<close> (category), \<open>Summa\<close> (signed amount), \<open>Opisanie\<close> (description),
  \<open>Byudzhet\<close> (budget), \<open>Valyuta\<close> (currency). The column \<open>Tip\<close> only ever receives
  one of the two strings of the select boxes, "Dokhod" (income) and "Raskhod" (expense).
  The column \<open>Valyuta\<close> receives a copy of the session's default currency, whatever
  value that is.
\<close>

datatype kind = Dokhod | Raskhod

record transaction =
  Data :: string
  Tip :: kind
  Kategoriya :: string
  Summa :: real
  Opisanie :: string
  Byudzhet :: real
  Valyuta :: pyval

text \<open>A goal, the dictionary of lines 206-211.\<close>

record goal =
  name :: string
  target_amount :: real
  deadline :: string
  current_amount :: real

text \<open>
  The keys of \<^verbatim>\<open>st.session_state\<close>. The frame \<open>transactions\<close> and the list \<open>goals\<close>
  are what the page works on; \<open>transactions_data\<close> and \<open>goals_data\<close> are what
  \<^verbatim>\<open>save_data\<close> and \<^verbatim>\<open>save_goals\<close> store and what export and import read and write.
\<close>

record session =
  transactions :: "transaction list"
  transactions_data :: pyval
  goals :: "goal list"
  goals_data :: pyval
  default_currency :: pyval

definition key_Data :: string where
  "key_Data = [CHR 0xD0, CHR 0x94, CHR 0xD0, CHR 0xB0, CHR 0xD1, CHR 0x82, CHR 0xD0, CHR 0xB0]"

definition key_Tip :: string where
  "key_Tip = [CHR 0xD0, CHR 0xA2, CHR 0xD0, CHR 0xB8, CHR 0xD0, CHR 0xBF]"

definition key_Kategoriya :: string where
  "key_Kategoriya =
    [CHR 0xD0, CHR 0x9A, CHR 0xD0, CHR 0xB0, CHR 0xD1, CHR 0x82, CHR 0xD0, CHR 0xB5, CHR 0xD0,
     CHR 0xB3, CHR 0xD0, CHR 0xBE, CHR 0xD1, CHR 0x80, CHR 0xD0, CHR 0xB8, CHR 0xD1, CHR 0x8F]"

definition key_Summa :: string where
  "key_Summa =
    [CHR 0xD0, CHR 0xA1, CHR 0xD1, CHR 0x83, CHR 0xD0, CHR 0xBC, CHR 0xD0, CHR 0xBC, CHR 0xD0,
     CHR 0xB0]"

definition key_Opisanie :: string where
  "key_Opisanie =
    [CHR 0xD0, CHR 0x9E, CHR 0xD0, CHR 0xBF, CHR 0xD0, CHR 0xB8, CHR 0xD1, CHR 0x81, CHR 0xD0,
     CHR 0xB0, CHR 0xD0, CHR 0xBD, CHR 0xD0, CHR 0xB8, CHR 0xD0, CHR 0xB5]"

definition key_Byudzhet :: string where
  "key_Byudzhet =
    [CHR 0xD0, CHR 0x91, CHR 0xD1, CHR 0x8E, CHR 0xD0, CHR 0xB4, CHR 0xD0, CHR 0xB6, CHR 0xD0,
     CHR 0xB5, CHR 0xD1, CHR 0x82]"

definition key_Valyuta :: string where
  "key_Valyuta =
    [CHR 0xD0, CHR 0x92, CHR 0xD0, CHR 0xB0, CHR 0xD0, CHR 0xBB, CHR 0xD1, CHR 0x8E, CHR 0xD1,
     CHR 0x82, CHR 0xD0, CHR 0xB0]"

text \<open>The two strings of the column \<open>Tip\<close>.\<close>

fun kind_text :: "kind \<Rightarrow> string" where
  "kind_text Dokhod =
    [CHR 0xD0, CHR 0x94, CHR 0xD0, CHR 0xBE, CHR 0xD1, CHR 0x85, CHR 0xD0, CHR 0xBE, CHR 0xD0,
     CHR 0xB4]"
| "kind_text Raskhod =
    [CHR 0xD0, CHR 0xA0, CHR 0xD0, CHR 0xB0, CHR 0xD1, CHR 0x81, CHR 0xD1, CHR 0x85, CHR 0xD0,
     CHR 0xBE, CHR 0xD0, CHR 0xB4]"

text \<open>The savings category of line 460 ("Nakopleniya"), one of \<^verbatim>\<open>EXPENSE_CATEGORIES\<close>.\<close>

definition Nakopleniya :: string where
  "Nakopleniya =
    [CHR 0xD0, CHR 0x9D, CHR 0xD0, CHR 0xB0, CHR 0xD0, CHR 0xBA, CHR 0xD0, CHR 0xBE, CHR 0xD0,
     CHR 0xBF, CHR 0xD0, CHR 0xBB, CHR 0xD0, CHR 0xB5, CHR 0xD0, CHR 0xBD, CHR 0xD0, CHR 0xB8,
     CHR 0xD1, CHR 0x8F]"

text \<open>The description of line 186 ("Ustanovka byudzheta").\<close>

definition budget_description :: string where
  "budget_description =
    [CHR 0xD0, CHR 0xA3, CHR 0xD1, CHR 0x81, CHR 0xD1, CHR 0x82, CHR 0xD0, CHR 0xB0, CHR 0xD0,
     CHR 0xBD, CHR 0xD0, CHR 0xBE, CHR 0xD0, CHR 0xB2, CHR 0xD0, CHR 0xBA, CHR 0xD0, CHR 0xB0,
     CHR 0x20, CHR 0xD0, CHR 0xB1, CHR 0xD1, CHR 0x8E, CHR 0xD0, CHR 0xB4, CHR 0xD0, CHR 0xB6,
     CHR 0xD0, CHR 0xB5, CHR 0xD1, CHR 0x82, CHR 0xD0, CHR 0xB0]"

text \<open>The prefix of the description of line 462 ("Vklad v tsel: ").\<close>

definition contribution_prefix :: string where
  "contribution_prefix =
    [CHR 0xD0, CHR 0x92, CHR 0xD0, CHR 0xBA, CHR 0xD0, CHR 0xBB, CHR 0xD0, CHR 0xB0, CHR 0xD0,
     CHR 0xB4, CHR 0x20, CHR 0xD0, CHR 0xB2, CHR 0x20, CHR 0xD1, CHR 0x86, CHR 0xD0, CHR 0xB5,
     CHR 0xD0, CHR 0xBB, CHR 0xD1, CHR 0x8C, CHR 0x3A, CHR 0x20]"

text \<open>\<^verbatim>\<open>df.to_dict('records')\<close>: one dictionary per row, the columns in the frame's order.\<close>

definition to_record :: "transaction \<Rightarrow> pyval" where
  "to_record r =
     PDict [(key_Data, PTimestamp (Data r)),
            (key_Tip, PStr (kind_text (Tip r))),
            (key_Kategoriya, PStr (Kategoriya r)),
            (key_Summa, PNum (Summa r)),
            (key_Opisanie, PStr (Opisanie r)),
            (key_Byudzhet, PNum (Byudzhet r)),
            (key_Valyuta, Valyuta r)]"

text \<open>\<^verbatim>\<open>save_data\<close>, lines 73-74.\<close>

definition save_data :: "transaction list \<Rightarrow> session \<Rightarrow> session" where
  "save_data df s = s\<lparr>transactions_data := PList (map to_record df)\<rparr>"

text \<open>A goal as the dictionary it is.\<close>

definition goal_dict :: "goal \<Rightarrow> pyval" where
  "goal_dict g =
     PDict [(''name'', PStr (name g)),
            (''target_amount'', PNum (target_amount g)),
            (''deadline'', PStr (deadline g)),
            (''current_amount'', PNum (current_amount g))]"

text \<open>\<^verbatim>\<open>save_goals\<close>, lines 81-82.\<close>

definition save_goals :: "goal list \<Rightarrow> session \<Rightarrow> session" where
  "save_goals gs s = s\<lparr>goals_data := PList (map goal_dict gs)\<rparr>"

text \<open>The state of lines 122-129 at the start of a session.\<close>

definition initial_session :: session where
  "initial_session =
     \<lparr>transactions = [], transactions_data = PList [], goals = [], goals_data = PList [],
      default_currency = PStr ''RUB''\<rparr>"

section \<open>Export and import (lines 103-121)\<close>

text \<open>
  A JSON text is represented by what \<^verbatim>\<open>json.loads\<close> makes of it: \<open>Malformed\<close> stands
  for every string it rejects, \<open>Document v\<close> for a string it parses to the value \<open>v\<close>.
  \<^verbatim>\<open>json.dumps(v, ensure_ascii=False, default=str)\<close> writes the text that parses to
  \<open>json_image v\<close>: lists, dictionaries, strings, numbers, booleans and \<^verbatim>\<open>None\<close> come
  back as they are, and a Timestamp, which JSON has no form for, goes through
  \<^verbatim>\<open>default=str\<close> and comes back as the string of its default form.
\<close>

datatype json_text = Malformed | Document pyval



text \<open>
  \<^verbatim>\<open>import_all_data\<close>, lines 113-121. The three assignments run in order inside the
  \<^verbatim>\<open>try\<close>; an exception at any point leaves the \<^verbatim>\<open>try\<close> with the earlier assignments
  made, and the bare \<^verbatim>\<open>except\<close> returns \<^verbatim>\<open>False\<close>.
\<close>

fun import_all_data :: "json_text \<Rightarrow> session \<Rightarrow> session \<times> bool" where
  "import_all_data Malformed s = (s, False)"
| "import_all_data (Document data) s =
     (case subscript data ''transactions'' of
        Inl _ \<Rightarrow> (s, False)
      | Inr t \<Rightarrow>
          (let s1 = s\<lparr>transactions_data := t\<rparr>
           in case subscript data ''goals'' of
                Inl _ \<Rightarrow> (s1, False)
              | Inr g \<Rightarrow>
                  (let s2 = s1\<lparr>goals_data := g\<rparr>
                   in case subscript data ''settings'' of
                        Inl _ \<Rightarrow> (s2, False)
                      | Inr settings \<Rightarrow>
                          (case subscript settings ''default_currency'' of
                             Inl _ \<Rightarrow> (s2, False)
                           | Inr c \<Rightarrow> (s2\<lparr>default_currency := c\<rparr>, True)))))"


section \<open>The button handlers of the side bar and of the goals tab\<close>

text \<open>
  Each handler is the body under its \<^verbatim>\<open>st.button\<close>, a function of the values of the
  widgets above it and of the session. \<^verbatim>\<open>datetime.now()\<close> is the argument \<open>now\<close>.
\<close>

text \<open>The handler of lines 178-197 ("Ustanovit byudzhet", set budget).\<close>

definition set_budget :: "string \<Rightarrow> real \<Rightarrow> string \<Rightarrow> session \<Rightarrow> session" where
  "set_budget category_budget budget_amount now s =
     (let mask = (\<lambda>r. Kategoriya r = category_budget);
          new_row = \<lparr>Data = now, Tip = Raskhod, Kategoriya = category_budget, Summa = 0,
                     Opisanie = budget_description, Byudzhet = budget_amount,
                     Valyuta = default_currency s\<rparr>;
          df = (if \<not> list_ex mask (transactions s)
                then transactions s @ [new_row]
                else map (\<lambda>r. if mask r then r\<lparr>Byudzhet := budget_amount\<rparr> else r)
                       (transactions s))
      in save_data df (s\<lparr>transactions := df\<rparr>))"

text \<open>The handler of lines 205-214 ("Dobavit tsel", add goal).\<close>

definition add_goal :: "string \<Rightarrow> real \<Rightarrow> string \<Rightarrow> session \<Rightarrow> session" where
  "add_goal goal_name goal_amount goal_deadline s =
     (let new_goal = \<lparr>name = goal_name, target_amount = goal_amount,
                       deadline = goal_deadline, current_amount = 0\<rparr>;
          gs = goals s @ [new_goal]
      in save_goals gs (s\<lparr>goals := gs\<rparr>))"

text \<open>
  The handler of lines 453-472 ("Vnesti", contribute). The button \<^verbatim>\<open>contribute_{idx}\<close>
  is drawn by the loop over \<^verbatim>\<open>enumerate(st.session_state.goals)\<close>: for an index past
  the list there is no button, and nothing happens.
\<close>

definition contribute :: "nat \<Rightarrow> real \<Rightarrow> string \<Rightarrow> session \<Rightarrow> session" where
  "contribute idx contribution now s =
     (if idx < length (goals s) then
        (let goal = goals s ! idx;
             gs = (goals s)[idx := goal\<lparr>current_amount := current_amount goal + contribution\<rparr>];
             s1 = save_goals gs (s\<lparr>goals := gs\<rparr>);
             new_transaction =
               \<lparr>Data = now, Tip = Raskhod, Kategoriya = Nakopleniya, Summa = - contribution,
                Opisanie = contribution_prefix @ name goal, Byudzhet = 0,
                Valyuta = default_currency s1\<rparr>;
             df = transactions s1 @ [new_transaction]
         in save_data df (s1\<lparr>transactions := df\<rparr>))
      else s)"

text \<open>
  The row the set-budget handler appends (lines 181-189) and the row the contribute
  handler appends (lines 457-465), named for the statements below.
\<close>

definition budget_row :: "string \<Rightarrow> real \<Rightarrow> string \<Rightarrow> session \<Rightarrow> transaction" where
  "budget_row category_budget budget_amount now s =
     \<lparr>Data = now, Tip = Raskhod, Kategoriya = category_budget, Summa = 0,
      Opisanie = budget_description, Byudzhet = budget_amount,
      Valyuta = default_currency s\<rparr>"

definition contribution_row :: "nat \<Rightarrow> real \<Rightarrow> string \<Rightarrow> session \<Rightarrow> transaction" where
  "contribution_row idx contribution now s =
     \<lparr>Data = now, Tip = Raskhod, Kategoriya = Nakopleniya, Summa = - contribution,
      Opisanie = contribution_prefix @ name (goals s ! idx), Byudzhet = 0,
      Valyuta = default_currency s\<rparr>"

text \<open>
  The rows of one category, and among them the rows the specification calls the
  budget row of the category: amount zero and a budget set.
\<close>

definition rows_of :: "string \<Rightarrow> session \<Rightarrow> transaction list" where
  "rows_of c s = filter (\<lambda>r. Kategoriya r = c) (transactions s)"

definition budget_rows_of :: "string \<Rightarrow> session \<Rightarrow> transaction list" where
  "budget_rows_of c s = filter (\<lambda>r. Summa r = 0 \<and> Byudzhet r \<noteq> 0) (rows_of c s)"

section \<open>The transaction handlers (lines 138-172, 94-101, 397-417)\<close>



text \<open>
  \<^verbatim>\<open>edit_transaction\<close>, lines 98-101: the dictionary \<^verbatim>\<open>edited_data\<close> is the list of
  its items, each written into its cell of the row by \<^verbatim>\<open>.at\<close>. The label is a
  position of the frame at every call: the only caller takes it from \<^verbatim>\<open>iterrows\<close> of
  the same frame.
\<close>

datatype cell =
    Cell_Data string
  | Cell_Tip kind
  | Cell_Kategoriya string
  | Cell_Summa real
  | Cell_Opisanie string
  | Cell_Byudzhet real
  | Cell_Valyuta pyval

fun set_cell :: "cell \<Rightarrow> transaction \<Rightarrow> transaction" where
  "set_cell (Cell_Data v) r = r\<lparr>Data := v\<rparr>"
| "set_cell (Cell_Tip v) r = r\<lparr>Tip := v\<rparr>"
| "set_cell (Cell_Kategoriya v) r = r\<lparr>Kategoriya := v\<rparr>"
| "set_cell (Cell_Summa v) r = r\<lparr>Summa := v\<rparr>"
| "set_cell (Cell_Opisanie v) r = r\<lparr>Opisanie := v\<rparr>"
| "set_cell (Cell_Byudzhet v) r = r\<lparr>Byudzhet := v\<rparr>"
| "set_cell (Cell_Valyuta v) r = r\<lparr>Valyuta := v\<rparr>"





section \<open>Sessions of user actions\<close>











section \<open>The formatter (lines 55-60)\<close>

text \<open>
  The two format specifications of \<^verbatim>\<open>format_amount\<close>, on real amounts.
  \<^verbatim>\<open>f"{n:,}"\<close> writes an integer in decimal, a minus sign first when it is negative,
  with a comma before every group of three digits counted from the right.
  \<^verbatim>\<open>f"{x:,.2f}"\<close> writes the amount rounded to two decimals, the exact value rounded
  half to even, with the sign of the amount itself (so \<^verbatim>\<open>-0.001\<close> gives
  \<^verbatim>\<open>-0.00\<close>), the integer part grouped the same way.
\<close>

definition digit_char :: "nat \<Rightarrow> char" where
  "digit_char d = ''0123456789'' ! d"

fun digits :: "nat \<Rightarrow> string" where
  "digits n = (if n < 10 then [digit_char n] else digits (n div 10) @ [digit_char (n mod 10)])"

declare digits.simps [simp del]





definition round_half_even :: "real \<Rightarrow> int" where
  "round_half_even x =
     (let f = \<lfloor>x\<rfloor>; d = x - of_int f
      in if d < 1 / 2 then f
         else if 1 / 2 < d then f + 1
         else if even f then f else f + 1)"









text \<open>The number a string of digits denotes, and the digits of a text without its commas.\<close>

definition digit_value :: "char \<Rightarrow> nat" where
  "digit_value ch = (of_char ch :: nat) - 48"

definition number_of :: "string \<Rightarrow> nat" where
  "number_of ds = foldl (\<lambda>n ch. 10 * n + digit_value ch) 0 ds"


section \<open>Sessions used as concrete inputs\<close>

text \<open>
  A session with one goal, and the same session after one and after two contributions
  to it. Each is reached from the initial session through the handlers alone.
\<close>

definition car_session :: session where
  "car_session = add_goal ''Car'' 10000 ''2030-01-01'' initial_session"

definition funded_session :: session where
  "funded_session = contribute 0 2500 ''2024-05-01 10:00:00'' car_session"

definition funded_twice_session :: session where
  "funded_twice_session = contribute 0 500 ''2024-06-01 10:00:00'' funded_session"

text \<open>
  The session with one goal after two contributions of 0, the value the number input
  starts with: the ledger holds two rows of the savings category with amount zero.
\<close>

definition idle_session :: session where
  "idle_session =
     contribute 0 0 ''2024-06-01 10:00:00'' (contribute 0 0 ''2024-05-01 10:00:00'' car_session)"

section \<open>Properties of the rate fetcher and of conversion\<close>



text \<open>
  C9. For every amount and every currency X, \<^verbatim>\<open>convert_amount(a, X, X)\<close> is \<^verbatim>\<open>a\<close>, and the
  call leaves the effects as they were: no URL is requested and no message is shown,
  whatever the remote end would have answered.
\<close>

theorem convert_amount_same_currency:
  "convert_amount resp a X X fx = (Inr a, fx)"
  by (simp add: convert_amount_def)








section \<open>Properties of export and import\<close>



lemma import_all_data_True:
  assumes "snd (import_all_data j s) = True"
  shows "\<exists>data t g settings c. j = Document data \<and>
           subscript data ''transactions'' = Inr t \<and>
           subscript data ''goals'' = Inr g \<and>
           subscript data ''settings'' = Inr settings \<and>
           subscript settings ''default_currency'' = Inr c \<and>
           import_all_data j s =
             (s\<lparr>transactions_data := t, goals_data := g, default_currency := c\<rparr>, True)"
  using assms by (cases j) (auto simp: Let_def split: sum.splits)

lemma import_all_data_False_default_currency:
  assumes "snd (import_all_data j s) = False"
  shows "default_currency (fst (import_all_data j s)) = default_currency s"
  using assms by (cases j) (auto simp: Let_def split: sum.splits)


lemma import_all_data_no_transactions:
  assumes "j = Malformed \<or> (\<exists>data. j = Document data \<and> isl (subscript data ''transactions''))"
  shows "import_all_data j s = (s, False)"
  using assms by (auto split: sum.splits)

lemma car_session_eq:
  "car_session =
     \<lparr>transactions = [], transactions_data = PList [],
      goals = [\<lparr>name = ''Car'', target_amount = 10000, deadline = ''2030-01-01'',
                current_amount = 0\<rparr>],
      goals_data = PList [goal_dict \<lparr>name = ''Car'', target_amount = 10000,
                deadline = ''2030-01-01'', current_amount = 0\<rparr>],
      default_currency = PStr ''RUB''\<rparr>"
  by (simp add: car_session_def add_goal_def initial_session_def save_goals_def Let_def)

lemma funded_session_eq:
  "funded_session =
     \<lparr>transactions =
        [\<lparr>Data = ''2024-05-01 10:00:00'', Tip = Raskhod, Kategoriya = Nakopleniya,
          Summa = - 2500, Opisanie = contribution_prefix @ ''Car'', Byudzhet = 0,
          Valyuta = PStr ''RUB''\<rparr>],
      transactions_data =
        PList [to_record
          \<lparr>Data = ''2024-05-01 10:00:00'', Tip = Raskhod, Kategoriya = Nakopleniya,
           Summa = - 2500, Opisanie = contribution_prefix @ ''Car'', Byudzhet = 0,
           Valyuta = PStr ''RUB''\<rparr>],
      goals = [\<lparr>name = ''Car'', target_amount = 10000, deadline = ''2030-01-01'',
                current_amount = 2500\<rparr>],
      goals_data = PList [goal_dict \<lparr>name = ''Car'', target_amount = 10000,
                deadline = ''2030-01-01'', current_amount = 2500\<rparr>],
      default_currency = PStr ''RUB''\<rparr>"
  by (simp add: funded_session_def car_session_eq contribute_def save_goals_def save_data_def
      Let_def)

text \<open>
  C1, at the input where the code departs from it. The uploaded document is well-formed
  JSON with the key \<^verbatim>\<open>transactions\<close> and without the key \<^verbatim>\<open>goals\<close>. The function
  returns \<^verbatim>\<open>False\<close>, the failure signal, and yet the stored ledger records have been
  replaced by the empty list of the document: the assignment of line 116 ran before
  line 117 raised.
\<close>

theorem import_all_data_partial:
  "import_all_data (Document (PDict [(''transactions'', PList [])])) funded_session =
     (funded_session\<lparr>transactions_data := PList []\<rparr>, False) \<and>
   transactions_data (funded_session\<lparr>transactions_data := PList []\<rparr>) \<noteq>
     transactions_data funded_session"
  by (simp add: funded_session_eq)



section \<open>Properties of the handlers\<close>

text \<open>
  C6. For every session and every index \<open>i\<close> within the goal list, the contribute
  handler with amount \<open>a\<close> replaces the \<open>i\<close>-th goal by the same goal with
  \<open>current_amount\<close> increased by exactly \<open>a\<close>, leaves the list as long as it was and
  every other goal as it was, and appends exactly one row to the ledger: an expense
  ("Raskhod") of the savings category with amount \<open>- a\<close>.
\<close>

theorem contribute_effect:
  assumes "i < length (goals s)"
  shows "goals (contribute i a now s) =
           (goals s)[i := (goals s ! i)\<lparr>current_amount := current_amount (goals s ! i) + a\<rparr>] \<and>
         length (goals (contribute i a now s)) = length (goals s) \<and>
         current_amount (goals (contribute i a now s) ! i) = current_amount (goals s ! i) + a \<and>
         (\<forall>j. j \<noteq> i \<longrightarrow> goals (contribute i a now s) ! j = goals s ! j) \<and>
         transactions (contribute i a now s) = transactions s @ [contribution_row i a now s] \<and>
         length (transactions (contribute i a now s)) = length (transactions s) + 1 \<and>
         Tip (contribution_row i a now s) = Raskhod \<and>
         Summa (contribution_row i a now s) = - a \<and>
         Kategoriya (contribution_row i a now s) = Nakopleniya"
  using assms
  by (simp add: contribute_def contribution_row_def save_goals_def save_data_def Let_def)

theorem contribute_effect_witness:
  "0 < length (goals car_session) \<and>
   current_amount (goals car_session ! 0) = 0 \<and>
   current_amount (goals (contribute 0 2500 ''2024-05-01 10:00:00'' car_session) ! 0) = 2500 \<and>
   transactions (contribute 0 2500 ''2024-05-01 10:00:00'' car_session) =
     [contribution_row 0 2500 ''2024-05-01 10:00:00'' car_session] \<and>
   Summa (contribution_row 0 2500 ''2024-05-01 10:00:00'' car_session) = - 2500"
proof -
  have len: "0 < length (goals car_session)"
    by (simp add: car_session_eq)
  from contribute_effect [OF len, of 2500 "''2024-05-01 10:00:00''"]
  show ?thesis
    using len by (simp add: car_session_eq)
qed

lemma set_budget_transactions:
  "transactions (set_budget c a now s) =
     (if list_ex (\<lambda>r. Kategoriya r = c) (transactions s)
      then map (\<lambda>r. if Kategoriya r = c then r\<lparr>Byudzhet := a\<rparr> else r) (transactions s)
      else transactions s @ [budget_row c a now s])"
  by (simp add: set_budget_def budget_row_def save_data_def Let_def)

lemma set_budget_other_keys:
  "goals (set_budget c a now s) = goals s \<and>
   goals_data (set_budget c a now s) = goals_data s \<and>
   default_currency (set_budget c a now s) = default_currency s \<and>
   transactions_data (set_budget c a now s) =
     PList (map to_record (transactions (set_budget c a now s)))"
  by (simp add: set_budget_def save_data_def Let_def)

lemma list_ex_rows_of:
  "list_ex (\<lambda>r. Kategoriya r = c) (transactions s) \<longleftrightarrow> rows_of c s \<noteq> []"
  by (simp add: rows_of_def list_ex_iff filter_empty_conv)

lemma filter_category_patched:
  "filter (\<lambda>r. Kategoriya r = c')
      (map (\<lambda>r. if Kategoriya r = c then r\<lparr>Byudzhet := a\<rparr> else r) xs) =
     (if c' = c then map (\<lambda>r. r\<lparr>Byudzhet := a\<rparr>) (filter (\<lambda>r. Kategoriya r = c) xs)
      else filter (\<lambda>r. Kategoriya r = c') xs)"
  by (induction xs) auto

lemma rows_of_set_budget:
  "rows_of c' (set_budget c a now s) =
     (if c' = c
      then (if rows_of c s \<noteq> [] then map (\<lambda>r. r\<lparr>Byudzhet := a\<rparr>) (rows_of c s)
            else [budget_row c a now s])
      else rows_of c' s)"
proof (cases "rows_of c s \<noteq> []")
  case True
  then show ?thesis
    using set_budget_transactions [of c a now s]
    by (simp add: list_ex_rows_of) (simp add: rows_of_def filter_category_patched)
next
  case False
  then show ?thesis
    using set_budget_transactions [of c a now s]
    by (simp add: list_ex_rows_of) (auto simp: rows_of_def budget_row_def)
qed

text \<open>
  C2, as the code has it. The set-budget handler looks for rows of the category, whatever
  their amount: when there is at least one it overwrites the budget of every row of the
  category and appends nothing; when there is none it appends exactly one row, dated
  \<open>now\<close>, with amount 0 and the budget. Afterwards the category has at least one row,
  every row of it carries the new budget, and the rows of every other category are as
  they were.
\<close>

theorem set_budget_effect:
  "transactions (set_budget c a now s) =
     (if rows_of c s \<noteq> []
      then map (\<lambda>r. if Kategoriya r = c then r\<lparr>Byudzhet := a\<rparr> else r) (transactions s)
      else transactions s @ [budget_row c a now s]) \<and>
   length (transactions (set_budget c a now s)) =
     length (transactions s) + (if rows_of c s \<noteq> [] then 0 else 1) \<and>
   Summa (budget_row c a now s) = 0 \<and> Byudzhet (budget_row c a now s) = a \<and>
   Kategoriya (budget_row c a now s) = c \<and> Data (budget_row c a now s) = now \<and>
   rows_of c (set_budget c a now s) \<noteq> [] \<and>
   list_all (\<lambda>r. Byudzhet r = a) (rows_of c (set_budget c a now s)) \<and>
   (\<forall>c'. c' \<noteq> c \<longrightarrow> rows_of c' (set_budget c a now s) = rows_of c' s)"
proof -
  have "transactions (set_budget c a now s) =
     (if rows_of c s \<noteq> []
      then map (\<lambda>r. if Kategoriya r = c then r\<lparr>Byudzhet := a\<rparr> else r) (transactions s)
      else transactions s @ [budget_row c a now s])"
    by (simp add: set_budget_transactions list_ex_rows_of)
  moreover from this have "length (transactions (set_budget c a now s)) =
     length (transactions s) + (if rows_of c s \<noteq> [] then 0 else 1)"
    by simp
  moreover have "Summa (budget_row c a now s) = 0 \<and> Byudzhet (budget_row c a now s) = a \<and>
     Kategoriya (budget_row c a now s) = c \<and> Data (budget_row c a now s) = now"
    by (simp add: budget_row_def)
  moreover have "rows_of c (set_budget c a now s) \<noteq> []"
    by (simp add: rows_of_set_budget)
  moreover have "list_all (\<lambda>r. Byudzhet r = a) (rows_of c (set_budget c a now s))"
    by (simp add: rows_of_set_budget list_all_iff budget_row_def)
  moreover have "\<forall>c'. c' \<noteq> c \<longrightarrow> rows_of c' (set_budget c a now s) = rows_of c' s"
    by (simp add: rows_of_set_budget)
  ultimately show ?thesis
    by blast
qed


lemma contribute_transactions:
  "i < length (goals s) \<Longrightarrow>
   transactions (contribute i a now s) = transactions s @ [contribution_row i a now s] \<and>
   default_currency (contribute i a now s) = default_currency s \<and>
   length (goals (contribute i a now s)) = length (goals s) \<and>
   name (goals (contribute i a now s) ! i) = name (goals s ! i)"
  by (simp add: contribute_def contribution_row_def save_goals_def save_data_def Let_def)

lemma car_session_goals: "length (goals car_session) = 1 \<and> transactions car_session = []"
  by (simp add: car_session_eq)

lemma funded_session_transactions:
  "transactions funded_session =
     [contribution_row 0 2500 ''2024-05-01 10:00:00'' car_session]"
  using contribute_transactions [of 0 car_session 2500 "''2024-05-01 10:00:00''"]
  by (simp add: funded_session_def car_session_goals)

lemma funded_twice_session_transactions:
  "transactions funded_twice_session =
     [contribution_row 0 2500 ''2024-05-01 10:00:00'' car_session,
      contribution_row 0 500 ''2024-06-01 10:00:00'' funded_session]"
proof -
  have "length (goals funded_session) = 1"
    using contribute_transactions [of 0 car_session 2500 "''2024-05-01 10:00:00''"]
    by (simp add: funded_session_def car_session_goals)
  then show ?thesis
    using contribute_transactions [of 0 funded_session 500 "''2024-06-01 10:00:00''"]
    by (simp add: funded_twice_session_def funded_session_transactions)
qed

lemma idle_session_transactions:
  "transactions idle_session =
     [contribution_row 0 0 ''2024-05-01 10:00:00'' car_session,
      contribution_row 0 0 ''2024-06-01 10:00:00''
        (contribute 0 0 ''2024-05-01 10:00:00'' car_session)]"
proof -
  let ?s1 = "contribute 0 0 ''2024-05-01 10:00:00'' car_session"
  have one: "transactions ?s1 = [contribution_row 0 0 ''2024-05-01 10:00:00'' car_session] \<and>
      length (goals ?s1) = 1"
    using contribute_transactions [of 0 car_session 0 "''2024-05-01 10:00:00''"]
    by (simp add: car_session_goals)
  then show ?thesis
    using contribute_transactions [of 0 ?s1 0 "''2024-06-01 10:00:00''"]
    by (simp add: idle_session_def)
qed

theorem set_budget_effect_witness:
  "rows_of Nakopleniya initial_session = [] \<and>
   transactions (set_budget Nakopleniya 1000 ''2024-07-01 09:00:00'' initial_session) =
     [budget_row Nakopleniya 1000 ''2024-07-01 09:00:00'' initial_session] \<and>
   ''Food'' \<noteq> Nakopleniya \<and>
   rows_of ''Food'' (set_budget Nakopleniya 1000 ''2024-07-01 09:00:00'' initial_session) = []"
proof -
  have none: "rows_of Nakopleniya initial_session = []"
    and none': "rows_of ''Food'' initial_session = []"
    by (simp_all add: rows_of_def initial_session_def)
  have ne: "''Food'' \<noteq> Nakopleniya"
    by (simp add: Nakopleniya_def)
  note e = set_budget_effect [of Nakopleniya 1000 "''2024-07-01 09:00:00''" initial_session]
  from e none have "transactions (set_budget Nakopleniya 1000 ''2024-07-01 09:00:00''
      initial_session) = transactions initial_session @
        [budget_row Nakopleniya 1000 ''2024-07-01 09:00:00'' initial_session]"
    by simp
  moreover from e ne
  have "rows_of ''Food'' (set_budget Nakopleniya 1000 ''2024-07-01 09:00:00'' initial_session)
      = rows_of ''Food'' initial_session"
    by blast
  ultimately show ?thesis
    using none none' ne by (simp add: initial_session_def)
qed

text \<open>
  C2 as the claim words it fails on a ledger that holds an ordinary expense of the
  category and no zero-amount row of it (here the contribution of 2500 to the goal, a row
  of the savings category). The claim has the handler append a synthetic row; the code
  appends nothing and writes the budget into the expense row. And "at most one budget
  row per category" fails where the category has two zero-amount rows: both receive the
  budget.
\<close>

theorem set_budget_effect_counterexample:
  "filter (\<lambda>r. Summa r = 0) (rows_of Nakopleniya funded_session) = [] \<and>
   budget_rows_of Nakopleniya funded_session = [] \<and>
   transactions (set_budget Nakopleniya 1000 ''2024-07-01 09:00:00'' funded_session) =
     [(contribution_row 0 2500 ''2024-05-01 10:00:00'' car_session)\<lparr>Byudzhet := 1000\<rparr>] \<and>
   length (transactions (set_budget Nakopleniya 1000 ''2024-07-01 09:00:00'' funded_session)) =
     length (transactions funded_session) \<and>
   length (budget_rows_of Nakopleniya
     (set_budget Nakopleniya 1000 ''2024-07-01 09:00:00'' idle_session)) = 2"
  by (simp add: budget_rows_of_def rows_of_set_budget)
     (simp add: rows_of_def set_budget_transactions funded_session_transactions
       idle_session_transactions contribution_row_def)

lemma set_budget_eq:
  "set_budget c a now s =
     s\<lparr>transactions := transactions (set_budget c a now s),
       transactions_data := PList (map to_record (transactions (set_budget c a now s)))\<rparr>"
  by (simp add: set_budget_def save_data_def Let_def)

lemma set_budget_twice_transactions:
  "transactions (set_budget c a2 now2 (set_budget c a1 now1 s)) =
   transactions (set_budget c a2 now1 s)"
proof -
  let ?s1 = "set_budget c a1 now1 s"
  let ?patch = "\<lambda>a r. if Kategoriya r = c then r\<lparr>Byudzhet := a\<rparr> else r"
  have ex1: "list_ex (\<lambda>r. Kategoriya r = c) (transactions ?s1)"
    by (simp only: list_ex_rows_of) (simp add: rows_of_set_budget)
  have outer: "transactions (set_budget c a2 now2 ?s1) = map (?patch a2) (transactions ?s1)"
    by (subst set_budget_transactions) (simp only: ex1 if_True)
  show ?thesis
  proof (cases "rows_of c s \<noteq> []")
    case True
    then have "transactions ?s1 = map (?patch a1) (transactions s)"
      by (simp add: set_budget_transactions list_ex_rows_of)
    moreover have "transactions (set_budget c a2 now1 s) = map (?patch a2) (transactions s)"
      using True by (simp add: set_budget_transactions list_ex_rows_of)
    ultimately show ?thesis
      unfolding outer by simp
  next
    case False
    then have "transactions ?s1 = transactions s @ [budget_row c a1 now1 s]"
      by (simp add: set_budget_transactions list_ex_rows_of)
    moreover have "transactions (set_budget c a2 now1 s) =
        transactions s @ [budget_row c a2 now1 s]"
      using False by (simp add: set_budget_transactions list_ex_rows_of)
    moreover have "map (?patch a2) (transactions s) = transactions s"
      using False by (auto simp: rows_of_def filter_empty_conv intro!: map_idI)
    moreover have "?patch a2 (budget_row c a1 now1 s) = budget_row c a2 now1 s"
      by (simp add: budget_row_def)
    ultimately show ?thesis
      unfolding outer by simp
  qed
qed

text \<open>
  C3, as the code has it. Setting the budget of a category twice gives the session that
  setting the second amount alone gives (at the time of the first call): the first amount
  leaves no trace. The category then has at least one row and every row of it carries
  the second amount; when the ledger held no row of the category before, it holds exactly
  one afterwards, the synthetic row with the second amount.
\<close>

theorem set_budget_twice:
  "set_budget c a2 now2 (set_budget c a1 now1 s) = set_budget c a2 now1 s \<and>
   rows_of c (set_budget c a2 now2 (set_budget c a1 now1 s)) \<noteq> [] \<and>
   list_all (\<lambda>r. Byudzhet r = a2) (rows_of c (set_budget c a2 now2 (set_budget c a1 now1 s))) \<and>
   (rows_of c s = [] \<longrightarrow>
      rows_of c (set_budget c a2 now2 (set_budget c a1 now1 s)) = [budget_row c a2 now1 s])"
proof -
  have eq: "set_budget c a2 now2 (set_budget c a1 now1 s) = set_budget c a2 now1 s"
    by (subst set_budget_eq, subst (2) set_budget_eq, subst (3) set_budget_eq)
       (simp add: set_budget_twice_transactions)
  have all: "list_all (\<lambda>r. Byudzhet r = a2) (rows_of c (set_budget c a2 now1 s))"
    by (simp add: rows_of_set_budget list_all_iff budget_row_def)
  show ?thesis
    unfolding eq using all by (simp add: rows_of_set_budget)
qed

theorem set_budget_twice_witness:
  "rows_of Nakopleniya car_session = [] \<and>
   rows_of Nakopleniya
     (set_budget Nakopleniya 700 ''2024-08-01 09:00:00''
        (set_budget Nakopleniya 1000 ''2024-07-01 09:00:00'' car_session)) =
     [budget_row Nakopleniya 700 ''2024-07-01 09:00:00'' car_session] \<and>
   Byudzhet (budget_row Nakopleniya 700 ''2024-07-01 09:00:00'' car_session) = 700"
proof -
  have none: "rows_of Nakopleniya car_session = []"
    by (simp add: rows_of_def car_session_eq)
  from set_budget_twice [of Nakopleniya 700 "''2024-08-01 09:00:00''" 1000
      "''2024-07-01 09:00:00''" car_session] none
  have "rows_of Nakopleniya
     (set_budget Nakopleniya 700 ''2024-08-01 09:00:00''
        (set_budget Nakopleniya 1000 ''2024-07-01 09:00:00'' car_session)) =
     [budget_row Nakopleniya 700 ''2024-07-01 09:00:00'' car_session]"
    by blast
  with none show ?thesis
    by (simp add: budget_row_def)
qed

text \<open>
  C3 as the claim words it, "exactly one budget row", fails on a ledger that already
  holds rows of the category. After two contributions to a goal the savings category has
  two expense rows: after the two calls both carry the second amount and none of them is
  a zero-amount budget row. Where the category has two zero-amount rows, the two calls
  leave two budget rows.
\<close>

theorem set_budget_twice_counterexample:
  "length (rows_of Nakopleniya
     (set_budget Nakopleniya 700 ''2024-08-01 09:00:00''
        (set_budget Nakopleniya 1000 ''2024-07-01 09:00:00'' funded_twice_session))) = 2 \<and>
   budget_rows_of Nakopleniya
     (set_budget Nakopleniya 700 ''2024-08-01 09:00:00''
        (set_budget Nakopleniya 1000 ''2024-07-01 09:00:00'' funded_twice_session)) = [] \<and>
   length (budget_rows_of Nakopleniya
     (set_budget Nakopleniya 700 ''2024-08-01 09:00:00''
        (set_budget Nakopleniya 1000 ''2024-07-01 09:00:00'' idle_session))) = 2"
  by (simp add: budget_rows_of_def rows_of_set_budget)
     (simp add: rows_of_def funded_twice_session_transactions idle_session_transactions
       contribution_row_def)

section \<open>The sign of the amounts\<close>





lemma transactions_save_data [simp]:
  "transactions (save_data df s) = transactions s"
  by (simp add: save_data_def)


lemma fold_set_cell_edit:
  "fold set_cell [Cell_Data a, Cell_Tip t, Cell_Kategoriya c, Cell_Summa x, Cell_Opisanie o',
     Cell_Valyuta w] r =
   r\<lparr>Data := a, Tip := t, Kategoriya := c, Summa := x, Opisanie := o', Valyuta := w\<rparr>"
  by simp













section \<open>Properties of the formatter\<close>


lemma digit_value_digit_char: "d < 10 \<Longrightarrow> digit_value (digit_char d) = d"
proof -
  assume "d < 10"
  then have "d \<in> {0, 1, 2, 3, 4, 5, 6, 7, 8, 9}"
    by auto
  then show ?thesis
    by (auto simp: digit_value_def digit_char_def)
qed


lemma number_of_snoc: "number_of (ds @ [ch]) = 10 * number_of ds + digit_value ch"
  by (simp add: number_of_def)

lemma number_of_digits: "number_of (digits n) = n"
proof (induction n rule: digits.induct)
  case (1 n)
  show ?case
  proof (cases "n < 10")
    case True
    then show ?thesis
      by (subst digits.simps) (simp add: number_of_def digit_value_digit_char)
  next
    case False
    with 1 show ?thesis
      by (subst digits.simps) (simp add: number_of_snoc digit_value_digit_char)
  qed
qed











lemma round_half_even_close:
  "\<bar>real_of_int (round_half_even y) - y\<bar> \<le> 1 / 2 \<and> (0 \<le> y \<longrightarrow> 0 \<le> round_half_even y)"
proof -
  have "real_of_int \<lfloor>y\<rfloor> \<le> y" and "y < real_of_int \<lfloor>y\<rfloor> + 1"
    by linarith+
  moreover have "0 \<le> y \<Longrightarrow> 0 \<le> \<lfloor>y\<rfloor>"
    by simp
  ultimately show ?thesis
    by (auto simp: round_half_even_def Let_def)
qed








end
